theory Spec2Isabelle
  imports Main "HOL-Library.Sublist"
begin

section \<open>Python values, text and exceptions\<close>

text \<open>
  The two scripts are Python 2. A value that reaches a \<^verbatim>\<open>%s\<close> conversion is an
  integer or a string; both are unbounded. An exception that nothing catches ends the run.
\<close>

datatype pyval = PInt int | PStr string

datatype exn = TypeError | ValueError | NameError | IOError

definition tab :: char where
  "tab = CHR 0x09"

definition is_digit :: "char \<Rightarrow> bool" where
  "is_digit c = (c \<in> set ''0123456789'')"

definition is_space :: "char \<Rightarrow> bool" where
  \<comment> \<open>\<^verbatim>\<open>\s\<close> of an 8-bit pattern, and the characters \<^verbatim>\<open>int()\<close> strips: space, tab, LF, CR, FF, VT\<close>
  "is_space c = (c \<in> {CHR '' '', CHR 0x09, CHR 0x0A, CHR 0x0D, CHR 0x0C, CHR 0x0B})"

definition digit_val :: "char \<Rightarrow> int" where
  "digit_val c =
     (case map_of (zip ''0123456789'' [0, 1, 2, 3, 4, 5, 6, 7, 8, 9]) c of
        Some d \<Rightarrow> d | None \<Rightarrow> 0)"

definition digits_val :: "string \<Rightarrow> int" where
  "digits_val s = foldl (\<lambda>a c. 10 * a + digit_val c) 0 s"

definition unsigned_int :: "string \<Rightarrow> int option" where
  "unsigned_int s = (if s \<noteq> [] \<and> list_all is_digit s then Some (digits_val s) else None)"

definition strip :: "string \<Rightarrow> string" where
  "strip s = rev (dropWhile is_space (rev (dropWhile is_space s)))"

definition py_int :: "string \<Rightarrow> int option" where
  \<comment> \<open>\<^verbatim>\<open>int(s)\<close>: surrounding white space, an optional sign, decimal digits;
      \<open>None\<close> stands for the ValueError of any other text\<close>
  "py_int s =
     (case strip s of
        [] \<Rightarrow> None
      | c # r \<Rightarrow>
          if c = CHR ''+'' then unsigned_int r
          else if c = CHR ''-'' then map_option uminus (unsigned_int r)
          else unsigned_int (c # r))"

definition digit_char :: "nat \<Rightarrow> char" where
  "digit_char d = ''0123456789'' ! d"

fun show_nat :: "nat \<Rightarrow> string" where
  "show_nat n = (if n < 10 then [digit_char n] else show_nat (n div 10) @ [digit_char (n mod 10)])"

definition show_int :: "int \<Rightarrow> string" where
  "show_int i = (if i < 0 then CHR ''-'' # show_nat (nat (- i)) else show_nat (nat i))"

fun py_str :: "pyval \<Rightarrow> string" where
  "py_str (PInt i) = show_int i"
| "py_str (PStr s) = s"

definition lower_char :: "char \<Rightarrow> char" where
  "lower_char c =
     (case map_of (zip ''ABCDEFGHIJKLMNOPQRSTUVWXYZ'' ''abcdefghijklmnopqrstuvwxyz'') c of
        Some d \<Rightarrow> d | None \<Rightarrow> c)"

definition lower :: "string \<Rightarrow> string" where
  "lower s = map lower_char s"

section \<open>Regular expressions as the scripts use them\<close>

text \<open>
  Every pattern of the two scripts is a sequence of single characters or character
  classes, each taken once or under a greedy \<^verbatim>\<open>+\<close> or \<^verbatim>\<open>*\<close>, with an optional \<^verbatim>\<open>^\<close>
  in front; every group encloses exactly one such item. \<open>rmatch\<close> is the backtracking
  matcher at a fixed position: a repetition first takes as many characters as it can and
  gives them back one at a time while the rest of the pattern fails. \<open>re_search\<close> tries
  the positions from the left, as \<^verbatim>\<open>re.search\<close> does, and returns the groups of the
  first match.
\<close>

datatype atom = Digit | Space | Dot | Ch char

fun atom_accepts :: "atom \<Rightarrow> char \<Rightarrow> bool" where
  "atom_accepts Digit c = is_digit c"
| "atom_accepts Space c = is_space c"
| "atom_accepts Dot c = (c \<noteq> CHR 0x0A)"
| "atom_accepts (Ch d) c = (c = d)"

definition accepts :: "atom list \<Rightarrow> char \<Rightarrow> bool" where
  "accepts cls c = list_ex (\<lambda>a. atom_accepts a c) cls"

datatype quant = Once | Plus | Star

datatype item = Bol | Tok quant "atom list" | Grp quant "atom list"

fun lo :: "quant \<Rightarrow> nat" where
  "lo Once = 1"
| "lo Plus = 1"
| "lo Star = 0"

definition hi :: "quant \<Rightarrow> atom list \<Rightarrow> string \<Rightarrow> nat" where
  "hi q cls s =
     (let n = length (takeWhile (accepts cls) s)
      in case q of Once \<Rightarrow> min 1 n | Plus \<Rightarrow> n | Star \<Rightarrow> n)"

fun backtrack :: "(nat \<Rightarrow> 'a option) \<Rightarrow> nat \<Rightarrow> nat \<Rightarrow> 'a option" where
  "backtrack f l k =
     (if k < l then None
      else case f k of
             Some r \<Rightarrow> Some r
           | None \<Rightarrow> (if k = 0 then None else backtrack f l (k - 1)))"

fun rmatch :: "item list \<Rightarrow> bool \<Rightarrow> string \<Rightarrow> string list option" where
  "rmatch [] b s = Some []"
| "rmatch (Bol # p) b s = (if b then rmatch p b s else None)"
| "rmatch (Tok q cls # p) b s =
     backtrack (\<lambda>k. rmatch p (b \<and> k = 0) (drop k s)) (lo q) (hi q cls s)"
| "rmatch (Grp q cls # p) b s =
     backtrack (\<lambda>k. map_option ((#) (take k s)) (rmatch p (b \<and> k = 0) (drop k s)))
       (lo q) (hi q cls s)"

fun search :: "item list \<Rightarrow> bool \<Rightarrow> string \<Rightarrow> string list option" where
  "search p b [] = rmatch p b []"
| "search p b (x # xs) =
     (case rmatch p b (x # xs) of Some g \<Rightarrow> Some g | None \<Rightarrow> search p False xs)"

definition re_search :: "item list \<Rightarrow> string \<Rightarrow> string list option" where
  "re_search p s = search p True s"

definition lit :: "string \<Rightarrow> item list" where
  "lit w = map (\<lambda>c. Tok Once [Ch c]) w"

definition group :: "string list \<Rightarrow> nat \<Rightarrow> string" where
  \<comment> \<open>\<^verbatim>\<open>match.group(n)\<close>, for \<open>n\<close> from 1 to the number of groups of the pattern\<close>
  "group g n = g ! (n - 1)"

declare backtrack.simps [simp del]

section \<open>CGC\_parser.py: the normalizer\<close>

subsection \<open>Configuration and patterns\<close>

record config =
  GLIMMER3 :: bool
  PRODIGAL_sco :: bool
  PRODIGAL_gff :: bool
  RAST_GFF3 :: bool

definition source_config :: config where
  \<comment> \<open>the values the script sets under CONFIGURABLE\<close>
  "source_config = \<lparr>GLIMMER3 = True, PRODIGAL_sco = True, PRODIGAL_gff = False, RAST_GFF3 = True\<rparr>"

abbreviation sign_class :: "atom list" where
  "sign_class \<equiv> [Ch CHR ''+'', Ch CHR ''-'']"

definition p_comment :: "item list" where
  "p_comment = [Bol, Tok Once [Ch CHR ''#'']]"

definition p_dataLine_Genemark :: "item list" where
  "p_dataLine_Genemark =
     [Tok Plus [Space], Grp Plus [Digit], Tok Plus [Space], Grp Once sign_class,
      Tok Plus [Space], Grp Plus [Digit, Ch CHR ''>'', Ch CHR ''<''], Tok Plus [Space],
      Grp Plus [Digit], Tok Plus [Space], Grp Plus [Digit], Tok Plus [Space], Tok Plus [Digit]]"

definition p_contigLine_Genemark :: "item list" where
  "p_contigLine_Genemark =
     lit ''FASTA'' @ [Tok Once [Space]] @ lit ''definition'' @ [Tok Once [Space]] @ lit ''line:''
     @ [Tok Once [Space], Grp Star [Dot], Tok Plus [Space]] @ lit ''length='' @ [Tok Plus [Digit]]"

definition p_contigLine_Glimmer :: "item list" where
  "p_contigLine_Glimmer =
     [Bol, Tok Once [Ch CHR ''>''], Grp Star [Dot], Tok Plus [Space]] @ lit ''length=''
     @ [Tok Plus [Digit], Tok Plus [Space]] @ lit ''numreads='' @ [Tok Plus [Digit]]"

definition p_dataLine_Glimmer3 :: "item list" where
  "p_dataLine_Glimmer3 =
     lit ''orf'' @ [Grp Plus [Digit], Tok Plus [Space], Grp Plus [Digit], Tok Plus [Space],
       Grp Plus [Digit], Tok Plus [Space], Grp Once sign_class, Tok Once [Digit],
       Tok Plus [Space], Grp Plus [Digit, Ch CHR ''.'']]"

definition p_dataLine_Glimmer2 :: "item list" where
  "p_dataLine_Glimmer2 =
     [Tok Plus [Space], Grp Plus [Digit], Tok Plus [Space], Grp Plus [Digit], Tok Plus [Space],
      Grp Plus [Digit], Tok Plus [Space], Tok Once [Ch CHR ''[''], Grp Once sign_class,
      Tok Once [Digit], Tok Once [Space]] @ lit ''L='' @ [Tok Star [Space], Grp Plus [Digit],
      Tok Once [Space]] @ lit ''r='' @ [Tok Star [Dot], Tok Once [Ch CHR '']'']]"

definition p_dataLine_Glimmer :: "config \<Rightarrow> item list" where
  "p_dataLine_Glimmer cfg = (if GLIMMER3 cfg then p_dataLine_Glimmer3 else p_dataLine_Glimmer2)"

definition p_dataLine_RAST :: "item list" where
  "p_dataLine_RAST =
     [Grp Star [Dot], Tok Once [Ch tab], Tok Star [Dot], Tok Once [Ch tab]] @ lit ''CDS''
     @ [Tok Once [Ch tab], Grp Plus [Digit], Tok Once [Ch tab], Grp Plus [Digit],
        Tok Once [Ch tab], Tok Once [Ch CHR ''.''], Tok Once [Ch tab], Grp Once sign_class,
        Tok Once [Ch tab], Tok Once [Digit], Tok Once [Ch tab], Tok Star [Dot]]"

definition p_dataLine_Prodigal_sco :: "item list" where
  "p_dataLine_Prodigal_sco =
     [Bol, Tok Once [Ch CHR ''>''], Grp Plus [Digit], Tok Once [Ch CHR ''_''], Grp Plus [Digit],
      Tok Once [Ch CHR ''_''], Grp Plus [Digit], Tok Once [Ch CHR ''_''], Grp Once sign_class]"

definition p_dataLine_Prodigal_gff :: "item list" where
  "p_dataLine_Prodigal_gff =
     [Grp Star [Dot], Tok Once [Ch tab], Tok Star [Dot], Tok Once [Ch tab]] @ lit ''CDS''
     @ [Tok Once [Ch tab], Grp Plus [Digit], Tok Once [Ch tab], Grp Plus [Digit],
        Tok Once [Ch tab], Grp Plus [Digit, Ch CHR ''.''], Tok Once [Ch tab], Grp Once sign_class,
        Tok Once [Ch tab], Tok Once [Dot], Tok Once [Ch tab], Grp Star [Dot]]"

definition p_dataLine_Phate :: "item list" where
  "p_dataLine_Phate =
     [Bol, Grp Plus [Digit], Tok Once [Ch tab], Grp Plus [Digit], Tok Once [Ch tab],
      Grp Once sign_class]"

subsection \<open>State of one Process call\<close>

text \<open>
  \<open>gene_rec\<close> is the tuple a Process function hands to the \<^verbatim>\<open>%s\t%s\t%s\t%s\t%s\t%s\n\<close>
  format: gene number, strand, left end, right end, length, contig. \<open>pstate\<close> holds the
  local variables of the function (\<open>len\<close> is the source's \<^verbatim>\<open>length\<close>), the records it
  has written to \<^verbatim>\<open>OUT\<close> and to \<^verbatim>\<open>USER_OUT\<close>, the lines it has written to \<^verbatim>\<open>LOGFILE\<close>,
  and the exception that ended it, if any.
\<close>

record gene_rec =
  r_geneNo :: pyval
  r_strand :: string
  r_leftEnd :: pyval
  r_rightEnd :: pyval
  r_length :: pyval
  r_contig :: string

record pstate =
  geneNo :: pyval
  contig :: string
  strand :: string
  leftEnd :: pyval
  rightEnd :: pyval
  len :: pyval
  count :: int
  OUT :: "gene_rec list"
  USER_OUT :: "gene_rec list"
  LOGFILE :: "string list"
  raised :: "exn option"

definition init_state :: "string \<Rightarrow> pstate" where
  \<comment> \<open>the first line of every Process function; only the initial contig differs\<close>
  "init_state c =
     \<lparr>geneNo = PInt 0, contig = c, strand = [], leftEnd = PStr [], rightEnd = PStr [],
      len = PInt 0, count = 0, OUT = [], USER_OUT = [], LOGFILE = [], raised = None\<rparr>"

definition raise :: "exn \<Rightarrow> pstate \<Rightarrow> pstate" where
  "raise e st = st\<lparr>raised := Some e\<rparr>"

definition write_rec :: "bool \<Rightarrow> pstate \<Rightarrow> pstate" where
  \<comment> \<open>\<^verbatim>\<open>OUT.write(...)\<close>, and the same to \<^verbatim>\<open>USER_OUT\<close> when \<^verbatim>\<open>USER_OUT_PROVIDED\<close>\<close>
  "write_rec user_out_provided st =
     (let r = \<lparr>r_geneNo = geneNo st, r_strand = strand st, r_leftEnd = leftEnd st,
               r_rightEnd = rightEnd st, r_length = len st, r_contig = contig st\<rparr>;
          st1 = st\<lparr>OUT := OUT st @ [r]\<rparr>
      in if user_out_provided then st1\<lparr>USER_OUT := USER_OUT st1 @ [r]\<rparr> else st1)"

fun run_lines :: "(string \<Rightarrow> pstate \<Rightarrow> pstate) \<Rightarrow> string list \<Rightarrow> pstate \<Rightarrow> pstate" where
  \<comment> \<open>\<^verbatim>\<open>for line in fLines:\<close> with the given body; an exception leaves the loop\<close>
  "run_lines body [] st = st"
| "run_lines body (line # rest) st =
     (let st1 = body line st
      in if raised st1 \<noteq> None then st1 else run_lines body rest st1)"

definition fmt_rec :: "gene_rec \<Rightarrow> string" where
  \<comment> \<open>the text of one written record, without the final newline\<close>
  "fmt_rec r =
     py_str (r_geneNo r) @ tab # r_strand r @ tab # py_str (r_leftEnd r) @ tab
       # py_str (r_rightEnd r) @ tab # py_str (r_length r) @ tab # r_contig r"

subsection \<open>The five Process functions\<close>

text \<open>
  Each body below is the body of the \<^verbatim>\<open>for\<close> loop of one Process function, in the
  order of its \<^verbatim>\<open>if\<close>/\<^verbatim>\<open>elif\<close> chain. The locals of a call that an exception has
  ended are not observable, so the model does not update them on that path. The branch
  for an unknown strand writes to the log and then evaluates
  \<^verbatim>\<open>"%s\n" ("ERROR encountered: ...")\<close>, a call of a string, which raises TypeError
  before anything reaches \<^verbatim>\<open>OUT\<close>.
\<close>

definition strip_mark :: "string \<Rightarrow> string" where
  \<comment> \<open>\<^verbatim>\<open>if re.search('^>',x) or re.search('^<',x): x = x[1:]\<close>\<close>
  "strip_mark x =
     (if re_search [Bol, Tok Once [Ch CHR ''>'']] x \<noteq> None
         \<or> re_search [Bol, Tok Once [Ch CHR ''<'']] x \<noteq> None
      then drop 1 x else x)"

definition unknown_strand :: "pstate \<Rightarrow> pstate" where
  "unknown_strand st =
     raise TypeError
       (st\<lparr>LOGFILE := LOGFILE st @ [''ERROR: unknown strand designator, '' @ strand st]\<rparr>)"

definition default_contig :: "pstate \<Rightarrow> pstate" where
  \<comment> \<open>\<^verbatim>\<open>if contig == '': contig = 'unknown'\<close>\<close>
  "default_contig st = (if contig st = [] then st\<lparr>contig := ''unknown''\<rparr> else st)"

definition genemark_body :: "bool \<Rightarrow> string \<Rightarrow> pstate \<Rightarrow> pstate" where
  "genemark_body uop line st =
     (if re_search p_comment line \<noteq> None then st
      else case re_search p_contigLine_Genemark line of
        Some m \<Rightarrow> st\<lparr>contig := group m 1\<rparr>
      | None \<Rightarrow>
         (case re_search p_dataLine_Genemark line of
            None \<Rightarrow> st
          | Some m \<Rightarrow>
             (case py_int (group m 1) of
                None \<Rightarrow> raise ValueError st
              | Some n \<Rightarrow>
                 (case py_int (group m 5) of
                    None \<Rightarrow> raise ValueError st
                  | Some k \<Rightarrow>
                     (let st1 = st\<lparr>geneNo := PInt n, strand := group m 2,
                                   leftEnd := PStr (strip_mark (group m 3)),
                                   rightEnd := PStr (strip_mark (group m 4)), len := PInt k\<rparr>
                      in if strand st1 \<noteq> ''+'' \<and> strand st1 \<noteq> ''-'' then unknown_strand st1
                         else write_rec uop (default_contig st1))))))"

definition ProcessGenemark :: "bool \<Rightarrow> string list \<Rightarrow> pstate" where
  "ProcessGenemark uop fLines = run_lines (genemark_body uop) fLines (init_state [])"

definition glimmer_body :: "config \<Rightarrow> bool \<Rightarrow> string \<Rightarrow> pstate \<Rightarrow> pstate" where
  "glimmer_body cfg uop line st =
     (if re_search p_comment line \<noteq> None then st
      else case re_search p_contigLine_Glimmer line of
        Some m \<Rightarrow> st\<lparr>contig := group m 1\<rparr>
      | None \<Rightarrow>
         (case re_search (p_dataLine_Glimmer cfg) line of
            None \<Rightarrow> st
          | Some m \<Rightarrow>
             (case py_int (group m 1) of
                None \<Rightarrow> raise ValueError st
              | Some n \<Rightarrow>
             (case py_int (group m 2) of
                None \<Rightarrow> raise ValueError st
              | Some left \<Rightarrow>
             (case py_int (group m 3) of
                None \<Rightarrow> raise ValueError st
              | Some right \<Rightarrow>
                 (let st1 = st\<lparr>geneNo := PInt n, strand := group m 4\<rparr>;
                      finish = (\<lambda>l r. write_rec uop (default_contig
                                  (st1\<lparr>leftEnd := PInt l, rightEnd := PInt r,
                                       len := PInt (r - l + 1)\<rparr>)))
                  in if strand st1 = ''+'' then
                       finish left (if GLIMMER3 cfg then right else right + 3)
                     else if strand st1 = ''-'' then
                       finish (if GLIMMER3 cfg then right else right - 3) left
                     else unknown_strand st1))))))"

definition ProcessGlimmer :: "config \<Rightarrow> bool \<Rightarrow> string list \<Rightarrow> pstate" where
  "ProcessGlimmer cfg uop fLines = run_lines (glimmer_body cfg uop) fLines (init_state [])"

definition rast_body :: "bool \<Rightarrow> string \<Rightarrow> pstate \<Rightarrow> pstate" where
  "rast_body uop line st =
     (if re_search p_comment line \<noteq> None then st
      else case re_search p_dataLine_RAST line of
        None \<Rightarrow> st
      | Some m \<Rightarrow>
         (case py_int (group m 2) of
            None \<Rightarrow> raise ValueError st
          | Some l \<Rightarrow>
         (case py_int (group m 3) of
            None \<Rightarrow> raise ValueError st
          | Some r \<Rightarrow>
             write_rec uop
               (st\<lparr>count := count st + 1, geneNo := PInt (count st + 1), contig := group m 1,
                   leftEnd := PInt l, rightEnd := PInt r, strand := group m 4,
                   len := PInt (r - l + 1)\<rparr>))))"

definition ProcessRAST :: "config \<Rightarrow> bool \<Rightarrow> string list \<Rightarrow> pstate" where
  "ProcessRAST cfg uop fLines =
     (if RAST_GFF3 cfg then run_lines (rast_body uop) fLines (init_state [])
      else init_state [])"

definition prodigal_sco_body :: "bool \<Rightarrow> string \<Rightarrow> pstate \<Rightarrow> pstate" where
  "prodigal_sco_body uop line st =
     (if re_search p_comment line \<noteq> None then st
      else
        (let st1 =
           (case re_search p_dataLine_Prodigal_sco line of
              None \<Rightarrow> st
            | Some m \<Rightarrow>
               (case py_int (group m 2) of
                  None \<Rightarrow> raise ValueError st
                | Some l \<Rightarrow>
               (case py_int (group m 3) of
                  None \<Rightarrow> raise ValueError st
                | Some r \<Rightarrow>
                   st\<lparr>geneNo := PStr (group m 1), leftEnd := PInt l, rightEnd := PInt r,
                      strand := group m 4, len := PInt (r - l + 1)\<rparr>)))
         in if raised st1 \<noteq> None then st1 else write_rec uop st1))"

definition prodigal_gff_body :: "bool \<Rightarrow> string \<Rightarrow> pstate \<Rightarrow> pstate" where
  "prodigal_gff_body uop line st =
     (if re_search p_comment line \<noteq> None then st
      else
        (let st1 =
           (case re_search p_dataLine_Prodigal_gff line of
              None \<Rightarrow> st
            | Some m \<Rightarrow>
               (case py_int (group m 2) of
                  None \<Rightarrow> raise ValueError st
                | Some l \<Rightarrow>
               (case py_int (group m 3) of
                  None \<Rightarrow> raise ValueError st
                | Some r \<Rightarrow>
                   st\<lparr>count := count st + 1, geneNo := PInt (count st + 1),
                      contig := group m 1, leftEnd := PInt l, rightEnd := PInt r,
                      strand := group m 5, len := PInt (r - l + 1)\<rparr>)))
         in if raised st1 \<noteq> None then st1 else write_rec uop st1))"

definition ProcessProdigal :: "config \<Rightarrow> bool \<Rightarrow> string list \<Rightarrow> pstate" where
  "ProcessProdigal cfg uop fLines =
     (if PRODIGAL_sco cfg then run_lines (prodigal_sco_body uop) fLines (init_state ''unknown'')
      else run_lines (prodigal_gff_body uop) fLines (init_state ''unknown''))"

definition phate_body :: "bool \<Rightarrow> string \<Rightarrow> pstate \<Rightarrow> pstate" where
  "phate_body uop line st =
     (if re_search p_comment line \<noteq> None then st
      else case re_search p_dataLine_Phate line of
        None \<Rightarrow> st
      | Some m \<Rightarrow>
         (case py_int (group m 1) of
            None \<Rightarrow> raise ValueError st
          | Some a \<Rightarrow>
         (case py_int (group m 2) of
            None \<Rightarrow> raise ValueError st
          | Some b \<Rightarrow>
             (let st1 = st\<lparr>count := count st + 1, geneNo := PInt (count st + 1),
                           strand := group m 3\<rparr>;
                  st2 = (if strand st1 = ''+'' then st1\<lparr>leftEnd := PInt a, rightEnd := PInt b\<rparr>
                         else st1\<lparr>rightEnd := PInt a, leftEnd := PInt b\<rparr>);
                  l = (if strand st1 = ''+'' then a else b);
                  r = (if strand st1 = ''+'' then b else a)
              in write_rec uop (st2\<lparr>len := PInt (\<bar>r - l\<bar> + 1)\<rparr>)))))"

definition ProcessPhate :: "bool \<Rightarrow> string list \<Rightarrow> pstate" where
  "ProcessPhate uop fLines = run_lines (phate_body uop) fLines (init_state ''unknown'')"

subsection \<open>The top level of CGC\_parser.py\<close>

text \<open>
  The environment says which paths open for reading and for writing, the text of the
  IOError of a path that does not, and the lines \<^verbatim>\<open>read().splitlines()\<close> gives for a
  path. The model starts at GET INPUT PARAMETERS, with \<^verbatim>\<open>LOGFILE\<close> open. What the
  script prints is a list of \<open>printed\<close> values: the four message constants stand for
  their texts.
\<close>

record env =
  can_read :: "string \<Rightarrow> bool"
  can_write :: "string \<Rightarrow> bool"
  errmsg :: "string \<Rightarrow> string"
  file_lines :: "string \<Rightarrow> string list"

datatype printed = HELP_STRING | INPUT_STRING | USAGE_STRING | INFO_STRING
  | Line string | CallerName nat

datatype status = Completed | Exit int | Uncaught exn

record prun =
  p_stdout :: "printed list"
  p_log :: "string list"
  p_outfile :: "string list"
  p_userfile :: "string list"
  p_status :: status

definition cc :: "string \<Rightarrow> item" where
  \<comment> \<open>a bracket expression such as \<^verbatim>\<open>[Pp]\<close>\<close>
  "cc w = Tok Once (map Ch w)"

definition p_prodigal :: "item list" where
  "p_prodigal = map cc [''Pp'', ''Rr'', ''Oo'', ''Dd'', ''Ii'', ''Gg'', ''Aa'', ''Ll'']"

definition p_genemark :: "item list" where
  "p_genemark = map cc [''Gg'', ''Ee'', ''Nn'', ''Ee'', ''Mm'', ''Aa'', ''Rr'', ''Kk'']"

definition p_glimmer :: "item list" where
  "p_glimmer = map cc [''Gg'', ''Ll'', ''Ii''] @ [Tok Plus (map Ch ''Mm'')] @ map cc [''Ee'', ''Rr'']"

definition p_rast :: "item list" where
  "p_rast = map cc [''Rr'', ''Aa'', ''Ss'', ''Tt'']"

definition p_phate :: "item list" where
  "p_phate = map cc [''Pp'', ''Hh'', ''Aa'', ''Tt'', ''Ee'']"

definition outfile :: string where
  "outfile = ''./CGC_parser.out''"

definition bad_arg_count :: string where
  "bad_arg_count = ''Incorrect number of command-line arguments provided''"

definition parser_exit :: "printed list \<Rightarrow> string list \<Rightarrow> prun" where
  \<comment> \<open>\<^verbatim>\<open>LOGFILE.close(); exit(0)\<close> after the given prints and log lines\<close>
  "parser_exit ps ls =
     \<lparr>p_stdout = ps, p_log = ls, p_outfile = [], p_userfile = [], p_status = Exit 0\<rparr>"

definition parser_args :: "string list \<Rightarrow> prun + string \<times> string \<times> string option" where
  \<comment> \<open>GET INPUT PARAMETERS: an early exit, or geneCaller, geneCallerOut and the user's
      output file when \<^verbatim>\<open>USER_OUT_PROVIDED\<close>\<close>
  "parser_args argv =
     (let argCount = length argv in
      if argCount = 2 \<or> argCount = 3 \<or> argCount = 4 then
        if re_search (lit ''help'') (lower (argv ! 1)) \<noteq> None then Inl (parser_exit [HELP_STRING] [])
        else if re_search (lit ''input'') (lower (argv ! 1)) \<noteq> None then
          Inl (parser_exit [INPUT_STRING] [])
        else if re_search (lit ''usage'') (lower (argv ! 1)) \<noteq> None then
          Inl (parser_exit [USAGE_STRING] [])
        else if argCount = 3 \<or> argCount = 4 then
          Inr (lower (argv ! 1), argv ! 2, if argCount = 4 then Some (argv ! 3) else None)
        else Inl (parser_exit [USAGE_STRING] [bad_arg_count])
      else Inl (parser_exit [USAGE_STRING] [bad_arg_count]))"

definition header :: "string \<Rightarrow> string \<Rightarrow> string list" where
  "header geneCaller geneCallerOut =
     [''# '' @ geneCaller @ '' gene calls'' @ '', taken from file '' @ geneCallerOut,
      ''Gene No.'' @ tab # ''Strand'' @ tab # ''LeftEnd'' @ tab # ''RightEnd'' @ tab
        # ''Length'' @ tab # ''Contig'']"

definition dispatch :: "config \<Rightarrow> bool \<Rightarrow> string \<Rightarrow> string list \<Rightarrow> pstate" where
  \<comment> \<open>the \<^verbatim>\<open>if match_genemark: ... elif ... else:\<close> chain of BEGIN MAIN\<close>
  "dispatch cfg uop geneCaller fileLines =
     (if re_search p_genemark geneCaller \<noteq> None then ProcessGenemark uop fileLines
      else if re_search p_glimmer geneCaller \<noteq> None then ProcessGlimmer cfg uop fileLines
      else if re_search p_prodigal geneCaller \<noteq> None then ProcessProdigal cfg uop fileLines
      else if re_search p_rast geneCaller \<noteq> None then ProcessRAST cfg uop fileLines
      else if re_search p_phate geneCaller \<noteq> None then ProcessPhate uop fileLines
      else (init_state [])
             \<lparr>LOGFILE := [''ERROR: Cannot process unknown gene caller output file:'' @ geneCaller]\<rparr>)"

definition parser_main :: "config \<Rightarrow> env \<Rightarrow> string list \<Rightarrow> prun" where
  "parser_main cfg e argv =
     (case parser_args argv of
        Inl r \<Rightarrow> r
      | Inr (geneCaller, geneCallerOut, user) \<Rightarrow>
         (let in_ok = can_read e geneCallerOut;
              out_ok = can_write e outfile;
              fileError = (\<not> (in_ok \<and> out_ok));
              prints1 = (if in_ok then [] else [Line (errmsg e geneCallerOut)])
                        @ (if out_ok then [] else [Line (errmsg e outfile)])
          in
          if fileError then
            parser_exit prints1
              [''ERROR: problem with input file:'' @ geneCallerOut
                 @ (if out_ok then errmsg e geneCallerOut else errmsg e outfile)]
          else
            (let USER_OUT_PROVIDED = (user \<noteq> None);
                 user_open = (case user of None \<Rightarrow> False | Some u \<Rightarrow> can_write e u);
                 prints2 = (case user of
                              None \<Rightarrow> []
                            | Some u \<Rightarrow> if can_write e u then [] else [Line (errmsg e u)]);
                 hd_lines = header geneCaller geneCallerOut
             in
             if USER_OUT_PROVIDED \<and> \<not> user_open then
               \<comment> \<open>\<^verbatim>\<open>USER_OUT.write\<close> with \<^verbatim>\<open>USER_OUT\<close> never assigned\<close>
               \<lparr>p_stdout = prints2, p_log = [], p_outfile = hd_lines, p_userfile = [],
                p_status = Uncaught NameError\<rparr>
             else
               (let st = dispatch cfg USER_OUT_PROVIDED geneCaller (file_lines e geneCallerOut);
                    body = map fmt_rec (OUT st);
                    ubody = map fmt_rec (USER_OUT st)
                in case raised st of
                     Some x \<Rightarrow>
                       \<lparr>p_stdout = prints2, p_log = LOGFILE st, p_outfile = hd_lines @ body,
                        p_userfile = (if USER_OUT_PROVIDED then hd_lines @ ubody else []),
                        p_status = Uncaught x\<rparr>
                   | None \<Rightarrow>
                       \<lparr>p_stdout = prints2, p_log = LOGFILE st @ [''Processing complete''],
                        p_outfile = hd_lines @ body @ [''# END''],
                        p_userfile =
                          (if USER_OUT_PROVIDED then hd_lines @ ubody @ [''# END''] else []),
                        p_status = Completed\<rparr>))))"

section \<open>CGC\_main.py: the driver\<close>

text \<open>
  The classes \<^verbatim>\<open>CGC_geneCall.GeneCallSet\<close> and \<^verbatim>\<open>CGC_compare.Comparison\<close> are
  imported by the driver. A run of the driver is modelled by the trace of what it
  does, in order: what it prints, what it writes to its log, the files it opens and closes,
  and the methods of the two classes it calls (\<open>Call\<close>), each taken to return. The call
  sets are numbered in the order of \<^verbatim>\<open>callerList\<close>. The model starts at GET INPUT
  PARAMETERS, with \<^verbatim>\<open>OUT\<close> and \<^verbatim>\<open>LOG\<close> open; \<^verbatim>\<open>CHATTY\<close> is True and \<^verbatim>\<open>DEBUG\<close> is False,
  as the script sets them.
\<close>

datatype op = AddGeneCalls nat string | SortGeneCalls nat | Merge nat
  | Compare | IdentifyCommonCore | PrintReport

datatype event = Print printed | LogWrite string | LogClose | OutClose
  | Open string | Close string | Call op

record drun =
  trace :: "event list"
  d_status :: status

definition keyword_exit :: "printed \<Rightarrow> drun" where
  \<comment> \<open>\<^verbatim>\<open>print X; LOG.close(); exit(0)\<close>\<close>
  "keyword_exit x = \<lparr>trace = [Print x, LogClose], d_status = Exit 0\<rparr>"

fun add_files :: "env \<Rightarrow> nat \<Rightarrow> string list \<Rightarrow> event list \<times> bool" where
  \<comment> \<open>\<^verbatim>\<open>for geneFile in fileSet:\<close>; the flag is False when an \<^verbatim>\<open>open\<close> raised IOError\<close>
  "add_files e i [] = ([], True)"
| "add_files e i (geneFile # rest) =
     (if can_read e geneFile then
        (let (t, ok) = add_files e (Suc i) rest
         in ([Open geneFile, Print (Line (''Adding Calls from file '' @ geneFile)),
              Call (AddGeneCalls i geneFile), Close geneFile] @ t, ok))
      else ([], False))"

definition pipeline :: "env \<Rightarrow> string list \<Rightarrow> drun" where
  \<comment> \<open>BEGIN MAIN to CLEAN UP\<close>
  "pipeline e fileSet =
     (let start = [Print (Line ''Main: Iterating through fileSet...'')];
          (t, ok) = add_files e 0 fileSet;
          n = length fileSet
      in if \<not> ok then \<lparr>trace = start @ t, d_status = Uncaught IOError\<rparr>
         else
           \<lparr>trace = start @ t
              @ [Print (Line ''Main: callerList is'')]
              @ concat (map (\<lambda>i. [Print (CallerName i), Print (Line '', '')]) [0..<n])
              @ [Print (Line [])]
              @ [Print (Line ''Main: Sorting gene calls for each caller...'')]
              @ map (\<lambda>i. Call (SortGeneCalls i)) [0..<n]
              @ [Print (Line ''Main: Comparing accross the call sets...'')]
              @ map (\<lambda>i. Call (Merge i)) [0..<n]
              @ [Call Compare, Call IdentifyCommonCore, Call PrintReport, OutClose, LogClose],
            d_status = Completed\<rparr>)"

definition keyword_table :: "(string \<times> printed) list" where
  \<comment> \<open>the keyword tests of GET INPUT PARAMETERS, in their order\<close>
  "keyword_table = [(''help'', HELP_STRING), (''input'', INPUT_STRING), (''usage'', USAGE_STRING),
               (''detail'', INFO_STRING), (''info'', INFO_STRING)]"

fun first_keyword :: "(string \<times> printed) list \<Rightarrow> string \<Rightarrow> printed option" where
  "first_keyword [] a = None"
| "first_keyword ((w, x) # rest) a =
     (if re_search (lit w) a \<noteq> None then Some x else first_keyword rest a)"

definition main :: "env \<Rightarrow> string list \<Rightarrow> drun" where
  "main e argv =
     (if length argv > 1 then
        (case first_keyword keyword_table (lower (argv ! 1)) of
           Some x \<Rightarrow> keyword_exit x
         | None \<Rightarrow> pipeline e (tl argv))
      else \<lparr>trace = [LogWrite bad_arg_count, Print USAGE_STRING, LogClose], d_status = Exit 0\<rparr>)"

section \<open>Notions the properties are stated with\<close>

fun field_int :: "pyval \<Rightarrow> int option" where
  \<comment> \<open>the integer a written field stands for, if any\<close>
  "field_int (PInt i) = Some i"
| "field_int (PStr s) = py_int s"

definition coord_ordered :: "gene_rec \<Rightarrow> bool" where
  "coord_ordered r =
     (case (field_int (r_leftEnd r), field_int (r_rightEnd r)) of
        (Some a, Some b) \<Rightarrow> a \<le> b
      | _ \<Rightarrow> False)"

definition length_consistent :: "gene_rec \<Rightarrow> bool" where
  "length_consistent r =
     (case (field_int (r_leftEnd r), field_int (r_rightEnd r), field_int (r_length r)) of
        (Some a, Some b, Some n) \<Rightarrow> n = b - a + 1
      | _ \<Rightarrow> False)"

definition length_abs :: "gene_rec \<Rightarrow> bool" where
  "length_abs r =
     (case (field_int (r_leftEnd r), field_int (r_rightEnd r), field_int (r_length r)) of
        (Some a, Some b, Some n) \<Rightarrow> n = \<bar>b - a\<bar> + 1
      | _ \<Rightarrow> False)"

definition strand_ok :: "gene_rec \<Rightarrow> bool" where
  "strand_ok r = (r_strand r = ''+'' \<or> r_strand r = ''-'')"

fun groups_of :: "item list \<Rightarrow> (quant \<times> atom list) list" where
  \<comment> \<open>the groups of a pattern, in the order of their numbers\<close>
  "groups_of [] = []"
| "groups_of (Bol # p) = groups_of p"
| "groups_of (Tok q cls # p) = groups_of p"
| "groups_of (Grp q cls # p) = (q, cls) # groups_of p"

definition conforms :: "quant \<times> atom list \<Rightarrow> string \<Rightarrow> bool" where
  \<comment> \<open>the text of a group consists of characters of its class, as many as its quantifier allows\<close>
  "conforms qc g =
     (list_all (accepts (snd qc)) g \<and> lo (fst qc) \<le> length g \<and> (fst qc = Once \<longrightarrow> length g = 1))"

definition quiet :: "pstate \<Rightarrow> pstate \<Rightarrow> bool" where
  \<comment> \<open>a step that wrote nothing, logged nothing and raised nothing\<close>
  "quiet st st' =
     (OUT st' = OUT st \<and> USER_OUT st' = USER_OUT st \<and> LOGFILE st' = LOGFILE st
      \<and> raised st' = raised st)"

definition wrote :: "bool \<Rightarrow> pstate \<Rightarrow> gene_rec \<Rightarrow> pstate \<Rightarrow> bool" where
  \<comment> \<open>a step that wrote exactly the record \<open>r\<close>, and nothing to the log\<close>
  "wrote uop st r st' =
     (OUT st' = OUT st @ [r] \<and> USER_OUT st' = USER_OUT st @ (if uop then [r] else [])
      \<and> LOGFILE st' = LOGFILE st \<and> raised st' = raised st)"

definition ops_of :: "event list \<Rightarrow> op list" where
  "ops_of t = concat (map (\<lambda>ev. case ev of Call x \<Rightarrow> [x] | _ \<Rightarrow> []) t)"

definition opened :: "event list \<Rightarrow> string list" where
  "opened t = concat (map (\<lambda>ev. case ev of Open f \<Rightarrow> [f] | _ \<Rightarrow> []) t)"

definition prints_of :: "event list \<Rightarrow> printed list" where
  "prints_of t = concat (map (\<lambda>ev. case ev of Print x \<Rightarrow> [x] | _ \<Rightarrow> []) t)"


section \<open>Facts about the matcher\<close>

text \<open>
  A successful search returns one text per group of the pattern, and each text conforms to
  its group. So \<open>group m n\<close> is within range for every group number of the pattern, a
  \<^verbatim>\<open>(\d+)\<close> group always converts with \<^verbatim>\<open>int\<close>, and a \<^verbatim>\<open>([+-])\<close> group is one of the two
  signs.
\<close>


lemma backtrack_Some:
  "backtrack f l k = Some r \<Longrightarrow> \<exists>j. l \<le> j \<and> j \<le> k \<and> f j = Some r"
proof (induction k)
  case 0
  then show ?case
    by (subst (asm) backtrack.simps) (auto split: if_splits option.splits)
next
  case (Suc k)
  from Suc.prems show ?case
  proof (subst (asm) backtrack.simps, simp split: if_splits option.splits)
    assume "backtrack f l k = Some r"
    then obtain j where "l \<le> j" "j \<le> k" "f j = Some r"
      using Suc.IH by blast
    then show "\<exists>j\<ge>l. j \<le> Suc k \<and> f j = Some r"
      by (meson le_Suc_eq)
  next
    assume "f (Suc k) = Some r" "\<not> Suc k < l"
    then show "\<exists>j\<ge>l. j \<le> Suc k \<and> f j = Some r"
      by (metis not_less order_refl)
  qed
qed

lemma hi_le: "hi q cls s \<le> length (takeWhile (accepts cls) s)"
  by (cases q) (simp_all add: hi_def)

lemma take_accepted:
  assumes "k \<le> hi q cls s"
  shows "list_all (accepts cls) (take k s) \<and> length (take k s) = k"
proof -
  let ?t = "takeWhile (accepts cls) s"
  have kt: "k \<le> length ?t" using assms hi_le le_trans by blast
  have "take k s = take k (?t @ dropWhile (accepts cls) s)" by simp
  also have "\<dots> = take k ?t" using kt by (simp del: takeWhile_dropWhile_id)
  finally have eq: "take k s = take k ?t" .
  have "list_all (accepts cls) ?t"
    by (simp add: list_all_iff) (meson set_takeWhileD)
  then have "list_all (accepts cls) (take k ?t)"
    by (simp add: list_all_iff) (meson in_set_takeD)
  moreover have "length (take k ?t) = k" using kt by simp
  ultimately show ?thesis using eq by simp
qed

lemma hi_Once: "hi Once cls s \<le> 1"
  by (simp add: hi_def)

lemma rmatch_groups:
  "rmatch p b s = Some gs \<Longrightarrow> list_all2 conforms (groups_of p) gs"
proof (induction p arbitrary: b s gs)
  case Nil
  then show ?case by simp
next
  case (Cons i p)
  show ?case
  proof (cases i)
    case Bol
    with Cons show ?thesis by (auto split: if_splits)
  next
    case (Tok q cls)
    with Cons.prems obtain j where "rmatch p (b \<and> j = 0) (drop j s) = Some gs"
      using backtrack_Some by fastforce
    with Cons.IH Tok show ?thesis by simp
  next
    case (Grp q cls)
    from Cons.prems Grp
    have "backtrack (\<lambda>k. map_option ((#) (take k s)) (rmatch p (b \<and> k = 0) (drop k s)))
            (lo q) (hi q cls s) = Some gs"
      by simp
    from backtrack_Some [OF this]
    obtain j where j: "lo q \<le> j" "j \<le> hi q cls s"
      and m: "map_option ((#) (take j s)) (rmatch p (b \<and> j = 0) (drop j s)) = Some gs"
      by blast
    from m obtain gs' where gs': "rmatch p (b \<and> j = 0) (drop j s) = Some gs'" "gs = take j s # gs'"
      by auto
    have "conforms (q, cls) (take j s)"
      using take_accepted [OF j(2)] j hi_Once [of cls s] by (cases q) (auto simp: conforms_def)
    with Cons.IH [OF gs'(1)] gs'(2) Grp show ?thesis by simp
  qed
qed

lemma search_groups:
  "search p b s = Some gs \<Longrightarrow> list_all2 conforms (groups_of p) gs"
  by (induction s arbitrary: b) (auto split: option.splits dest: rmatch_groups)

lemma re_search_groups:
  "re_search p s = Some gs \<Longrightarrow> list_all2 conforms (groups_of p) gs"
  unfolding re_search_def by (rule search_groups)

lemma digit_not_space: "is_digit c \<Longrightarrow> \<not> is_space c"
  by (auto simp: is_digit_def is_space_def)

lemma py_int_digits:
  assumes "g \<noteq> []" "list_all is_digit g"
  shows "py_int g = Some (digits_val g)"
proof -
  from assms obtain c r where g: "g = c # r" by (cases g) auto
  have c: "is_digit c" using assms g by simp
  have "is_digit (last g)" using assms by (simp add: list_all_iff)
  then have "\<not> is_space (last g)" by (rule digit_not_space)
  then have "dropWhile is_space (rev g) = rev g"
    using assms(1) by (cases "rev g") (auto simp: last_rev)
  moreover have "dropWhile is_space g = g" using c g digit_not_space by simp
  ultimately have "strip g = g" by (simp add: strip_def)
  moreover have "c \<noteq> CHR ''+''" "c \<noteq> CHR ''-''" using c by (auto simp: is_digit_def)
  ultimately show ?thesis using g assms by (simp add: py_int_def unsigned_int_def)
qed

lemma conforms_digits:
  "conforms (Plus, [Digit]) g \<Longrightarrow> py_int g = Some (digits_val g)"
  by (rule py_int_digits) (auto simp: conforms_def accepts_def list_all_iff)

lemma conforms_sign:
  "conforms (Once, sign_class) g \<Longrightarrow> g = ''+'' \<or> g = ''-''"
  by (cases g) (auto simp: conforms_def accepts_def)

lemma Genemark_groups:
  assumes "re_search p_dataLine_Genemark l = Some m"
  shows "\<exists>g1 g2 g3 g4 g5. m = [g1, g2, g3, g4, g5] \<and> py_int g1 = Some (digits_val g1)
           \<and> (g2 = ''+'' \<or> g2 = ''-'') \<and> py_int g5 = Some (digits_val g5)"
  using re_search_groups [OF assms]
  by (auto simp: p_dataLine_Genemark_def list_all2_Cons1 dest: conforms_digits conforms_sign)

lemma Glimmer_groups:
  assumes "re_search (p_dataLine_Glimmer cfg) l = Some m"
  shows "\<exists>g1 g2 g3 g4 g5. m = [g1, g2, g3, g4, g5] \<and> py_int g1 = Some (digits_val g1)
           \<and> py_int g2 = Some (digits_val g2) \<and> py_int g3 = Some (digits_val g3)
           \<and> (g4 = ''+'' \<or> g4 = ''-'')"
  using re_search_groups [OF assms]
  by (cases "GLIMMER3 cfg")
     (auto simp: p_dataLine_Glimmer_def p_dataLine_Glimmer3_def p_dataLine_Glimmer2_def lit_def
        list_all2_Cons1 dest: conforms_digits conforms_sign)

lemma RAST_groups:
  assumes "re_search p_dataLine_RAST l = Some m"
  shows "\<exists>g1 g2 g3 g4. m = [g1, g2, g3, g4] \<and> py_int g2 = Some (digits_val g2)
           \<and> py_int g3 = Some (digits_val g3) \<and> (g4 = ''+'' \<or> g4 = ''-'')"
  using re_search_groups [OF assms]
  by (auto simp: p_dataLine_RAST_def lit_def list_all2_Cons1 dest: conforms_digits conforms_sign)

lemma Prodigal_sco_groups:
  assumes "re_search p_dataLine_Prodigal_sco l = Some m"
  shows "\<exists>g1 g2 g3 g4. m = [g1, g2, g3, g4] \<and> py_int g2 = Some (digits_val g2)
           \<and> py_int g3 = Some (digits_val g3) \<and> (g4 = ''+'' \<or> g4 = ''-'')"
  using re_search_groups [OF assms]
  by (auto simp: p_dataLine_Prodigal_sco_def list_all2_Cons1 dest: conforms_digits conforms_sign)

lemma Prodigal_gff_groups:
  assumes "re_search p_dataLine_Prodigal_gff l = Some m"
  shows "\<exists>g1 g2 g3 g4 g5 g6. m = [g1, g2, g3, g4, g5, g6] \<and> py_int g2 = Some (digits_val g2)
           \<and> py_int g3 = Some (digits_val g3) \<and> (g5 = ''+'' \<or> g5 = ''-'')"
  using re_search_groups [OF assms]
  by (auto simp: p_dataLine_Prodigal_gff_def lit_def list_all2_Cons1
        dest: conforms_digits conforms_sign)

lemma Phate_groups:
  assumes "re_search p_dataLine_Phate l = Some m"
  shows "\<exists>g1 g2 g3. m = [g1, g2, g3] \<and> py_int g1 = Some (digits_val g1)
           \<and> py_int g2 = Some (digits_val g2) \<and> (g3 = ''+'' \<or> g3 = ''-'')"
  using re_search_groups [OF assms]
  by (auto simp: p_dataLine_Phate_def list_all2_Cons1 dest: conforms_digits conforms_sign)

section \<open>Facts about the loop\<close>

lemma run_lines_inv:
  assumes "\<And>l st. l \<in> set ls \<Longrightarrow> I st \<Longrightarrow> I (body l st)" and "I st"
  shows "I (run_lines body ls st)"
  using assms by (induction ls arbitrary: st) (auto simp: Let_def)

lemma run_lines_skip:
  assumes "\<And>st. body l st = st" and "raised st = None"
  shows "run_lines body (xs @ l # ys) st = run_lines body (xs @ ys) st"
  using assms(2)
proof (induction xs arbitrary: st)
  case Nil
  then show ?case using assms(1) by (simp add: Let_def)
next
  case (Cons x xs)
  then show ?case by (cases "raised (body x st)") (simp_all add: Let_def)
qed

lemma run_lines_written:
  assumes step: "\<And>l st. l \<in> set ls \<Longrightarrow>
                   quiet st (body l st) \<or> (\<exists>r. P r \<and> wrote uop st r (body l st))"
  shows "raised (run_lines body ls (init_state c)) = None
       \<and> LOGFILE (run_lines body ls (init_state c)) = []
       \<and> (\<forall>r\<in>set (OUT (run_lines body ls (init_state c))). P r)
       \<and> USER_OUT (run_lines body ls (init_state c))
           = (if uop then OUT (run_lines body ls (init_state c)) else [])"
proof -
  let ?I = "\<lambda>st::pstate. raised st = None \<and> LOGFILE st = [] \<and> (\<forall>r\<in>set (OUT st). P r)
                \<and> USER_OUT st = (if uop then OUT st else [])"
  have "?I (run_lines body ls (init_state c))"
  proof (rule run_lines_inv [where I = ?I])
    show "?I (init_state c)" by (simp add: init_state_def)
  next
    fix l st assume "l \<in> set ls" and I: "?I st"
    from step [OF \<open>l \<in> set ls\<close>, of st] I show "?I (body l st)"
      by (auto simp: quiet_def wrote_def)
  qed
  then show ?thesis by blast
qed

lemma run_lines_quiet:
  assumes step: "\<And>l st. quiet st (body l st) \<or> (\<exists>r. wrote uop st r (body l st))"
  shows "raised (run_lines body ls (init_state c)) = None
       \<and> LOGFILE (run_lines body ls (init_state c)) = []"
  using run_lines_written [where P = "\<lambda>r. True" and body = body and uop = uop and ls = ls and c = c]
    step by simp

lemma Process_unmatched:
  assumes "\<And>st. body l st = st"
  shows "run_lines body (xs @ l # ys) (init_state c) = run_lines body (xs @ ys) (init_state c)"
  using assms by (intro run_lines_skip) (simp_all add: init_state_def)

section \<open>What one pass of each loop body does\<close>

lemmas eff = quiet_def wrote_def write_rec_def default_contig_def raise_def unknown_strand_def
  group_def Let_def

lemma genemark_body_effect:
  "quiet st (genemark_body uop l st)
   \<or> (\<exists>m k r. re_search p_dataLine_Genemark l = Some m \<and> py_int (group m 5) = Some k
        \<and> r_length r = PInt k \<and> strand_ok r \<and> wrote uop st r (genemark_body uop l st))"
proof (cases "re_search p_comment l \<noteq> None \<or> re_search p_contigLine_Genemark l \<noteq> None
              \<or> re_search p_dataLine_Genemark l = None")
  case True
  then show ?thesis by (auto simp: genemark_body_def quiet_def split: option.splits)
next
  case False
  then obtain m where m: "re_search p_dataLine_Genemark l = Some m" by auto
  from Genemark_groups [OF m] obtain g1 g2 g3 g4 g5 where
    g: "m = [g1, g2, g3, g4, g5]" "py_int g1 = Some (digits_val g1)" "g2 = ''+'' \<or> g2 = ''-''"
       "py_int g5 = Some (digits_val g5)"
    by blast
  have "py_int (group m 5) = Some (digits_val g5)" using g by (simp add: group_def)
  moreover have "\<exists>r. r_length r = PInt (digits_val g5) \<and> strand_ok r
                   \<and> wrote uop st r (genemark_body uop l st)"
    using False m g by (auto simp: genemark_body_def strand_ok_def eff)
  ultimately show ?thesis using m by blast
qed

lemma glimmer_body_data:
  assumes "re_search p_comment line = None" and "re_search p_contigLine_Glimmer line = None"
    and m: "re_search (p_dataLine_Glimmer cfg) line = Some m"
  shows "\<exists>n left right r.
           py_int (group m 1) = Some n \<and> py_int (group m 2) = Some left
         \<and> py_int (group m 3) = Some right
         \<and> wrote uop st r (glimmer_body cfg uop line st)
         \<and> r_geneNo r = PInt n \<and> r_strand r = group m 4 \<and> strand_ok r
         \<and> r_contig r = (if contig st = [] then ''unknown'' else contig st)
         \<and> (GLIMMER3 cfg \<and> r_strand r = ''+'' \<longrightarrow>
              r_leftEnd r = PInt left \<and> r_rightEnd r = PInt right)
         \<and> (GLIMMER3 cfg \<and> r_strand r = ''-'' \<longrightarrow>
              r_leftEnd r = PInt right \<and> r_rightEnd r = PInt left)
         \<and> (\<not> GLIMMER3 cfg \<and> r_strand r = ''+'' \<longrightarrow>
              r_leftEnd r = PInt left \<and> r_rightEnd r = PInt (right + 3))
         \<and> (\<not> GLIMMER3 cfg \<and> r_strand r = ''-'' \<longrightarrow>
              r_leftEnd r = PInt (right - 3) \<and> r_rightEnd r = PInt left)
         \<and> (\<exists>a b. r_leftEnd r = PInt a \<and> r_rightEnd r = PInt b \<and> r_length r = PInt (b - a + 1))"
proof -
  from Glimmer_groups [OF m] obtain g1 g2 g3 g4 g5 where
    g: "m = [g1, g2, g3, g4, g5]" "py_int g1 = Some (digits_val g1)"
       "py_int g2 = Some (digits_val g2)" "py_int g3 = Some (digits_val g3)"
       "g4 = ''+'' \<or> g4 = ''-''"
    by blast
  show ?thesis
    using assms g by (auto simp: glimmer_body_def strand_ok_def eff)
qed

lemma glimmer_body_effect:
  "quiet st (glimmer_body cfg uop l st)
   \<or> (\<exists>r. length_consistent r \<and> strand_ok r \<and> wrote uop st r (glimmer_body cfg uop l st))"
proof (cases "re_search p_comment l \<noteq> None \<or> re_search p_contigLine_Glimmer l \<noteq> None
              \<or> re_search (p_dataLine_Glimmer cfg) l = None")
  case True
  then show ?thesis by (auto simp: glimmer_body_def quiet_def split: option.splits)
next
  case False
  then obtain m where m: "re_search (p_dataLine_Glimmer cfg) l = Some m" by auto
  from False have c: "re_search p_comment l = None" "re_search p_contigLine_Glimmer l = None"
    by auto
  from glimmer_body_data [OF c m, of uop st] obtain r where
    "wrote uop st r (glimmer_body cfg uop l st)" "strand_ok r"
    "\<exists>a b. r_leftEnd r = PInt a \<and> r_rightEnd r = PInt b \<and> r_length r = PInt (b - a + 1)"
    by blast
  then show ?thesis by (auto simp: length_consistent_def)
qed

lemma rast_body_effect:
  "quiet st (rast_body uop l st)
   \<or> (\<exists>r. length_consistent r \<and> strand_ok r \<and> wrote uop st r (rast_body uop l st))"
proof (cases "re_search p_comment l \<noteq> None \<or> re_search p_dataLine_RAST l = None")
  case True
  then show ?thesis by (auto simp: rast_body_def quiet_def)
next
  case False
  then obtain m where m: "re_search p_dataLine_RAST l = Some m" by auto
  from RAST_groups [OF m] obtain g1 g2 g3 g4 where
    "m = [g1, g2, g3, g4]" "py_int g2 = Some (digits_val g2)" "py_int g3 = Some (digits_val g3)"
    "g4 = ''+'' \<or> g4 = ''-''"
    by blast
  then show ?thesis
    using False m by (auto simp: rast_body_def strand_ok_def length_consistent_def eff)
qed

lemma phate_body_effect:
  "quiet st (phate_body uop l st)
   \<or> (\<exists>r. length_abs r \<and> strand_ok r \<and> wrote uop st r (phate_body uop l st))"
proof (cases "re_search p_comment l \<noteq> None \<or> re_search p_dataLine_Phate l = None")
  case True
  then show ?thesis by (auto simp: phate_body_def quiet_def)
next
  case False
  then obtain m where m: "re_search p_dataLine_Phate l = Some m" by auto
  from Phate_groups [OF m] obtain g1 g2 g3 where
    "m = [g1, g2, g3]" "py_int g1 = Some (digits_val g1)" "py_int g2 = Some (digits_val g2)"
    "g3 = ''+'' \<or> g3 = ''-''"
    by blast
  then show ?thesis
    using False m by (auto simp: phate_body_def strand_ok_def length_abs_def eff)
qed

lemma prodigal_sco_body_effect:
  "quiet st (prodigal_sco_body uop l st) \<or> (\<exists>r. wrote uop st r (prodigal_sco_body uop l st))"
proof (cases "re_search p_comment l \<noteq> None")
  case True
  then show ?thesis by (auto simp: prodigal_sco_body_def quiet_def)
next
  case c: False
  show ?thesis
  proof (cases "re_search p_dataLine_Prodigal_sco l")
    case None
    then show ?thesis using c by (auto simp: prodigal_sco_body_def eff)
  next
    case (Some m)
    from Prodigal_sco_groups [OF Some] obtain g1 g2 g3 g4 where
      "m = [g1, g2, g3, g4]" "py_int g2 = Some (digits_val g2)" "py_int g3 = Some (digits_val g3)"
      by blast
    then show ?thesis using c Some by (auto simp: prodigal_sco_body_def eff)
  qed
qed

lemma prodigal_gff_body_effect:
  "quiet st (prodigal_gff_body uop l st) \<or> (\<exists>r. wrote uop st r (prodigal_gff_body uop l st))"
proof (cases "re_search p_comment l \<noteq> None")
  case True
  then show ?thesis by (auto simp: prodigal_gff_body_def quiet_def)
next
  case c: False
  show ?thesis
  proof (cases "re_search p_dataLine_Prodigal_gff l")
    case None
    then show ?thesis using c by (auto simp: prodigal_gff_body_def eff)
  next
    case (Some m)
    from Prodigal_gff_groups [OF Some] obtain g1 g2 g3 g4 g5 g6 where
      "m = [g1, g2, g3, g4, g5, g6]" "py_int g2 = Some (digits_val g2)"
      "py_int g3 = Some (digits_val g3)"
      by blast
    then show ?thesis using c Some by (auto simp: prodigal_gff_body_def eff)
  qed
qed

lemma prodigal_sco_body_matched:
  assumes "re_search p_comment l \<noteq> None \<or> re_search p_dataLine_Prodigal_sco l \<noteq> None"
  shows "quiet st (prodigal_sco_body uop l st)
         \<or> (\<exists>r. length_consistent r \<and> wrote uop st r (prodigal_sco_body uop l st))"
proof (cases "re_search p_comment l \<noteq> None")
  case True
  then show ?thesis by (auto simp: prodigal_sco_body_def quiet_def)
next
  case c: False
  with assms obtain m where m: "re_search p_dataLine_Prodigal_sco l = Some m" by auto
  from Prodigal_sco_groups [OF m] obtain g1 g2 g3 g4 where
    "m = [g1, g2, g3, g4]" "py_int g2 = Some (digits_val g2)" "py_int g3 = Some (digits_val g3)"
    by blast
  then show ?thesis using c m by (auto simp: prodigal_sco_body_def length_consistent_def eff)
qed

lemma prodigal_gff_body_matched:
  assumes "re_search p_comment l \<noteq> None \<or> re_search p_dataLine_Prodigal_gff l \<noteq> None"
  shows "quiet st (prodigal_gff_body uop l st)
         \<or> (\<exists>r. length_consistent r \<and> wrote uop st r (prodigal_gff_body uop l st))"
proof (cases "re_search p_comment l \<noteq> None")
  case True
  then show ?thesis by (auto simp: prodigal_gff_body_def quiet_def)
next
  case c: False
  with assms obtain m where m: "re_search p_dataLine_Prodigal_gff l = Some m" by auto
  from Prodigal_gff_groups [OF m] obtain g1 g2 g3 g4 g5 g6 where
    "m = [g1, g2, g3, g4, g5, g6]" "py_int g2 = Some (digits_val g2)"
    "py_int g3 = Some (digits_val g3)"
    by blast
  then show ?thesis using c m by (auto simp: prodigal_gff_body_def length_consistent_def eff)
qed

lemma genemark_body_unmatched:
  "re_search p_contigLine_Genemark l = None \<Longrightarrow> re_search p_dataLine_Genemark l = None
   \<Longrightarrow> genemark_body uop l st = st"
  by (simp add: genemark_body_def)

lemma glimmer_body_unmatched:
  "re_search p_contigLine_Glimmer l = None \<Longrightarrow> re_search (p_dataLine_Glimmer cfg) l = None
   \<Longrightarrow> glimmer_body cfg uop l st = st"
  by (simp add: glimmer_body_def)

lemma rast_body_unmatched:
  "re_search p_dataLine_RAST l = None \<Longrightarrow> rast_body uop l st = st"
  by (simp add: rast_body_def)

lemma phate_body_unmatched:
  "re_search p_dataLine_Phate l = None \<Longrightarrow> phate_body uop l st = st"
  by (simp add: phate_body_def)

section \<open>The four Process functions that write inside the data-line branch\<close>

text \<open>
  \<open>ProcessGenemark\<close>, \<open>ProcessGlimmer\<close>, \<open>ProcessRAST\<close> and \<open>ProcessPhate\<close> write
  only for a line that matched the data-line pattern, and the strand they write is the
  sign the pattern captured.
\<close>

lemma sibling_strands:
  "(\<forall>r\<in>set (OUT (ProcessGenemark uop ls)). strand_ok r)
   \<and> (\<forall>r\<in>set (OUT (ProcessGlimmer cfg uop ls)). strand_ok r)
   \<and> (\<forall>r\<in>set (OUT (ProcessRAST cfg uop ls)). strand_ok r)
   \<and> (\<forall>r\<in>set (OUT (ProcessPhate uop ls)). strand_ok r)"
proof (intro conjI)
  show "\<forall>r\<in>set (OUT (ProcessGenemark uop ls)). strand_ok r"
    unfolding ProcessGenemark_def
    using run_lines_written [where body = "genemark_body uop" and ls = ls and uop = uop
        and P = strand_ok and c = "[]"] genemark_body_effect [of _ uop]
    by blast
next
  show "\<forall>r\<in>set (OUT (ProcessGlimmer cfg uop ls)). strand_ok r"
    unfolding ProcessGlimmer_def
    using run_lines_written [where body = "glimmer_body cfg uop" and ls = ls and uop = uop
        and P = strand_ok and c = "[]"] glimmer_body_effect [of _ cfg uop]
    by blast
next
  show "\<forall>r\<in>set (OUT (ProcessRAST cfg uop ls)). strand_ok r"
  proof (cases "RAST_GFF3 cfg")
    case True
    then show ?thesis
      unfolding ProcessRAST_def
      using run_lines_written [where body = "rast_body uop" and ls = ls and uop = uop
          and P = strand_ok and c = "[]"] rast_body_effect [of _ uop]
      by (simp, blast)
  next
    case False
    then show ?thesis by (simp add: ProcessRAST_def init_state_def)
  qed
next
  show "\<forall>r\<in>set (OUT (ProcessPhate uop ls)). strand_ok r"
    unfolding ProcessPhate_def
    using run_lines_written [where body = "phate_body uop" and ls = ls and uop = uop
        and P = strand_ok and c = "''unknown''"] phate_body_effect [of _ uop]
    by blast
qed

lemma sibling_writes:
  "re_search p_dataLine_Genemark l = None \<Longrightarrow> OUT (genemark_body uop l st) = OUT st"
  "re_search (p_dataLine_Glimmer cfg) l = None \<Longrightarrow> OUT (glimmer_body cfg uop l st) = OUT st"
  "re_search p_dataLine_RAST l = None \<Longrightarrow> OUT (rast_body uop l st) = OUT st"
  "re_search p_dataLine_Phate l = None \<Longrightarrow> OUT (phate_body uop l st) = OUT st"
  by (simp_all add: genemark_body_def glimmer_body_def rast_body_def phate_body_def
        split: option.splits)

section \<open>Facts about the driver\<close>

lemma backtrack_1_0: "backtrack f (Suc 0) 0 = None"
  by (simp add: backtrack.simps)

lemma backtrack_1_1: "backtrack f (Suc 0) (Suc 0) = f (Suc 0)"
  by (subst backtrack.simps) (simp add: backtrack_1_0 split: option.splits)

lemma rmatch_lit:
  "rmatch (lit w) b s = (if prefix w s then Some [] else None)"
proof (induction w arbitrary: b s)
  case Nil
  then show ?case by (simp add: lit_def)
next
  case (Cons c w)
  have step: "rmatch (lit (c # w)) b s
      = backtrack (\<lambda>k. rmatch (lit w) (b \<and> k = 0) (drop k s)) (Suc 0) (hi Once [Ch c] s)"
    by (simp add: lit_def)
  show ?case
  proof (cases s)
    case Nil
    then show ?thesis unfolding step by (simp add: hi_def backtrack_1_0)
  next
    case s: (Cons x xs)
    show ?thesis
    proof (cases "x = c")
      case True
      then have "hi Once [Ch c] s = Suc 0" using s by (simp add: hi_def accepts_def)
      then show ?thesis unfolding step using s True Cons.IH [of False xs]
        by (simp add: backtrack_1_1)
    next
      case False
      then have "hi Once [Ch c] s = 0" using s by (simp add: hi_def accepts_def)
      then show ?thesis unfolding step using s False by (simp add: backtrack_1_0)
    qed
  qed
qed

lemma search_lit: "search (lit w) b s = (if sublist w s then Some [] else None)"
  by (induction s arbitrary: b) (simp_all add: rmatch_lit sublist_Cons_right)

lemma re_search_lit_eq: "re_search (lit w) s = (if sublist w s then Some [] else None)"
  by (simp add: re_search_def search_lit)

lemma re_search_lit: "re_search (lit w) s \<noteq> None \<longleftrightarrow> sublist w s"
  by (simp add: re_search_lit_eq)









lemma add_files_opened:
  "opened (fst (add_files e i fs)) = takeWhile (can_read e) fs"
  by (induction fs arbitrary: i) (simp_all add: opened_def case_prod_beta)





section \<open>Evaluation of concrete runs\<close>

lemma backtrack_weak_cong:
  "l = l' \<Longrightarrow> k = k' \<Longrightarrow> backtrack f l k = backtrack f l' k'"
  by simp

lemmas rx = re_search_def hi_def accepts_def is_digit_def is_space_def tab_def backtrack.simps
  lit_def group_def cc_def

lemmas pats = p_comment_def p_dataLine_Genemark_def p_contigLine_Genemark_def
  p_contigLine_Glimmer_def p_dataLine_Glimmer3_def p_dataLine_Glimmer2_def p_dataLine_Glimmer_def
  p_dataLine_RAST_def p_dataLine_Prodigal_sco_def p_dataLine_Prodigal_gff_def p_dataLine_Phate_def

lemmas nums = py_int_def strip_def unsigned_int_def digits_val_def digit_val_def

lemmas sts = init_state_def raise_def write_rec_def default_contig_def unknown_strand_def
  strip_mark_def Let_def

lemma Genemark_example:
  "OUT (ProcessGenemark False [''     1        +          10         100          5        1''])
   = [\<lparr>r_geneNo = PInt 1, r_strand = ''+'', r_leftEnd = PStr ''10'', r_rightEnd = PStr ''100'',
       r_length = PInt 5, r_contig = ''unknown''\<rparr>]"
  by (simp add: ProcessGenemark_def genemark_body_def rx pats nums sts cong: backtrack_weak_cong)

lemma Glimmer2_example:
  "OUT (ProcessGlimmer (source_config\<lparr>GLIMMER3 := False\<rparr>) False
          [''    1      337     2799  [+1 L=2463 r=-1.345]''])
   = [\<lparr>r_geneNo = PInt 1, r_strand = ''+'', r_leftEnd = PInt 337, r_rightEnd = PInt 2802,
       r_length = PInt 2466, r_contig = ''unknown''\<rparr>]"
  by (simp add: ProcessGlimmer_def glimmer_body_def source_config_def rx pats nums sts
        cong: backtrack_weak_cong)

lemma RAST_example:
  "OUT (ProcessRAST source_config False
          [''c1'' @ tab # ''FIG'' @ tab # ''CDS'' @ tab # ''337'' @ tab # ''2799'' @ tab # ''.''
             @ tab # ''+'' @ tab # ''0'' @ tab # ''ID=1''])
   = [\<lparr>r_geneNo = PInt 1, r_strand = ''+'', r_leftEnd = PInt 337, r_rightEnd = PInt 2799,
       r_length = PInt 2463, r_contig = ''c1''\<rparr>]"
  by (simp add: ProcessRAST_def rast_body_def source_config_def rx pats nums sts
        cong: backtrack_weak_cong)

lemma Phate_example:
  "OUT (ProcessPhate False [''2799'' @ tab # ''337'' @ tab # ''-''])
   = [\<lparr>r_geneNo = PInt 1, r_strand = ''-'', r_leftEnd = PInt 337, r_rightEnd = PInt 2799,
       r_length = PInt 2463, r_contig = ''unknown''\<rparr>]"
  by (simp add: ProcessPhate_def phate_body_def rx pats nums sts cong: backtrack_weak_cong)

lemma Prodigal_example:
  "OUT (ProcessProdigal source_config False [''# Sequence Data: seqnum=1'', ''>1_337_2799_+''])
   = [\<lparr>r_geneNo = PStr ''1'', r_strand = ''+'', r_leftEnd = PInt 337, r_rightEnd = PInt 2799,
       r_length = PInt 2463, r_contig = ''unknown''\<rparr>]"
  by (simp add: ProcessProdigal_def prodigal_sco_body_def source_config_def rx pats nums sts
        cong: backtrack_weak_cong)

lemma Prodigal_example_lines:
  "\<forall>l\<in>set [''# Sequence Data: seqnum=1'', ''>1_337_2799_+''].
      re_search p_comment l \<noteq> None \<or> re_search p_dataLine_Prodigal_sco l \<noteq> None"
  by (simp add: rx pats cong: backtrack_weak_cong)

lemma bad_strand_line:
  "re_search p_comment (''5'' @ tab # ''9'' @ tab # ''x'') = None"
  "re_search p_contigLine_Genemark (''5'' @ tab # ''9'' @ tab # ''x'') = None"
  "re_search p_dataLine_Genemark (''5'' @ tab # ''9'' @ tab # ''x'') = None"
  "re_search p_contigLine_Glimmer (''5'' @ tab # ''9'' @ tab # ''x'') = None"
  "re_search p_dataLine_Glimmer3 (''5'' @ tab # ''9'' @ tab # ''x'') = None"
  "re_search p_dataLine_Glimmer2 (''5'' @ tab # ''9'' @ tab # ''x'') = None"
  "re_search p_dataLine_RAST (''5'' @ tab # ''9'' @ tab # ''x'') = None"
  "re_search p_dataLine_Phate (''5'' @ tab # ''9'' @ tab # ''x'') = None"
  by (simp_all add: rx pats cong: backtrack_weak_cong)



lemmas drv = main_def keyword_table_def lower_def lower_char_def pipeline_def ops_of_def
  prints_of_def opened_def keyword_exit_def Let_def

section \<open>The properties\<close>

text \<open>
  C1. Claimed: every record a Process function writes has its left end less than or equal
  to its right end, whatever the strand. The header of the script says the same. The code
  breaks it: for the line Glimmer3 prints for a forward gene that runs across the origin of
  a circular sequence, start 4000 and end 50, \<open>ProcessGlimmer\<close> (with the configuration of
  the script) writes left end 4000, right end 50 and length -3949.
\<close>

theorem ProcessGlimmer_left_above_right:
  "OUT (ProcessGlimmer source_config False [''orf00001     4000       50  +1     5.20''])
     = [\<lparr>r_geneNo = PInt 1, r_strand = ''+'', r_leftEnd = PInt 4000, r_rightEnd = PInt 50,
         r_length = PInt (- 3949), r_contig = ''unknown''\<rparr>]
   \<and> \<not> coord_ordered \<lparr>r_geneNo = PInt 1, r_strand = ''+'', r_leftEnd = PInt 4000,
         r_rightEnd = PInt 50, r_length = PInt (- 3949), r_contig = ''unknown''\<rparr>"
  by (simp add: ProcessGlimmer_def glimmer_body_def source_config_def coord_ordered_def
        rx pats nums sts cong: backtrack_weak_cong)

text \<open>
  C2. Claimed: the length of every written record equals its right end minus its left end
  plus one. \<open>ProcessGenemark\<close> does not compute the length: it copies the fifth column of
  the line. For a line whose columns say 10, 100 and 5 it writes the length 5.
\<close>

theorem Genemark_length_counterexample:
  "OUT (ProcessGenemark False [''     1        +          10         100          5        1''])
     = [\<lparr>r_geneNo = PInt 1, r_strand = ''+'', r_leftEnd = PStr ''10'', r_rightEnd = PStr ''100'',
         r_length = PInt 5, r_contig = ''unknown''\<rparr>]
   \<and> \<not> length_consistent \<lparr>r_geneNo = PInt 1, r_strand = ''+'', r_leftEnd = PStr ''10'',
         r_rightEnd = PStr ''100'', r_length = PInt 5, r_contig = ''unknown''\<rparr>"
  by (simp add: ProcessGenemark_def genemark_body_def length_consistent_def rx pats nums sts
        cong: backtrack_weak_cong)

text \<open>
  C2, as the code has it. For every list of lines: every record \<open>ProcessGlimmer\<close> and
  \<open>ProcessRAST\<close> write has length = right end - left end + 1; every record
  \<open>ProcessPhate\<close> writes has length = |right end - left end| + 1; the length of every
  record \<open>ProcessGenemark\<close> writes is the integer in the fifth group of an input line
  that matched the data-line pattern; and when every line is a comment or matches the
  data-line pattern, every record \<open>ProcessProdigal\<close> writes has
  length = right end - left end + 1.
\<close>

theorem written_length:
  "(\<forall>r\<in>set (OUT (ProcessGlimmer cfg uop ls)). length_consistent r)
   \<and> (\<forall>r\<in>set (OUT (ProcessRAST cfg uop ls)). length_consistent r)
   \<and> (\<forall>r\<in>set (OUT (ProcessPhate uop ls)). length_abs r)
   \<and> (\<forall>r\<in>set (OUT (ProcessGenemark uop ls)).
         \<exists>l\<in>set ls. \<exists>m k. re_search p_dataLine_Genemark l = Some m
            \<and> py_int (group m 5) = Some k \<and> r_length r = PInt k)
   \<and> ((PRODIGAL_sco cfg \<and> (\<forall>l\<in>set ls. re_search p_comment l \<noteq> None
                                  \<or> re_search p_dataLine_Prodigal_sco l \<noteq> None)
        \<or> \<not> PRODIGAL_sco cfg \<and> (\<forall>l\<in>set ls. re_search p_comment l \<noteq> None
                                  \<or> re_search p_dataLine_Prodigal_gff l \<noteq> None))
       \<longrightarrow> (\<forall>r\<in>set (OUT (ProcessProdigal cfg uop ls)). length_consistent r))"
proof (intro conjI impI)
  show "\<forall>r\<in>set (OUT (ProcessGlimmer cfg uop ls)). length_consistent r"
    unfolding ProcessGlimmer_def
    using run_lines_written [where body = "glimmer_body cfg uop" and ls = ls and uop = uop
        and P = length_consistent and c = "[]"] glimmer_body_effect [of _ cfg uop]
    by blast
next
  show "\<forall>r\<in>set (OUT (ProcessRAST cfg uop ls)). length_consistent r"
  proof (cases "RAST_GFF3 cfg")
    case True
    then show ?thesis
      unfolding ProcessRAST_def
      using run_lines_written [where body = "rast_body uop" and ls = ls and uop = uop
          and P = length_consistent and c = "[]"] rast_body_effect [of _ uop]
      by (simp, blast)
  next
    case False
    then show ?thesis by (simp add: ProcessRAST_def init_state_def)
  qed
next
  show "\<forall>r\<in>set (OUT (ProcessPhate uop ls)). length_abs r"
    unfolding ProcessPhate_def
    using run_lines_written [where body = "phate_body uop" and ls = ls and uop = uop
        and P = length_abs and c = "''unknown''"] phate_body_effect [of _ uop]
    by blast
next
  let ?P = "\<lambda>r. \<exists>l\<in>set ls. \<exists>m k. re_search p_dataLine_Genemark l = Some m
              \<and> py_int (group m 5) = Some k \<and> r_length r = PInt k"
  have "\<And>l st. l \<in> set ls \<Longrightarrow> quiet st (genemark_body uop l st)
           \<or> (\<exists>r. ?P r \<and> wrote uop st r (genemark_body uop l st))"
    using genemark_body_effect [of _ uop] by blast
  from run_lines_written [where body = "genemark_body uop" and P = ?P, OF this, of ls "[]"]
  show "\<forall>r\<in>set (OUT (ProcessGenemark uop ls)). ?P r"
    unfolding ProcessGenemark_def by blast
next
  assume h: "PRODIGAL_sco cfg \<and> (\<forall>l\<in>set ls. re_search p_comment l \<noteq> None
                                  \<or> re_search p_dataLine_Prodigal_sco l \<noteq> None)
        \<or> \<not> PRODIGAL_sco cfg \<and> (\<forall>l\<in>set ls. re_search p_comment l \<noteq> None
                                  \<or> re_search p_dataLine_Prodigal_gff l \<noteq> None)"
  show "\<forall>r\<in>set (OUT (ProcessProdigal cfg uop ls)). length_consistent r"
  proof (cases "PRODIGAL_sco cfg")
    case True
    with h have "\<And>l st. l \<in> set ls \<Longrightarrow> quiet st (prodigal_sco_body uop l st)
         \<or> (\<exists>r. length_consistent r \<and> wrote uop st r (prodigal_sco_body uop l st))"
      using prodigal_sco_body_matched by blast
    from run_lines_written [where body = "prodigal_sco_body uop" and P = length_consistent,
        OF this, of ls "''unknown''"] True
    show ?thesis by (simp add: ProcessProdigal_def)
  next
    case False
    with h have "\<And>l st. l \<in> set ls \<Longrightarrow> quiet st (prodigal_gff_body uop l st)
         \<or> (\<exists>r. length_consistent r \<and> wrote uop st r (prodigal_gff_body uop l st))"
      using prodigal_gff_body_matched by blast
    from run_lines_written [where body = "prodigal_gff_body uop" and P = length_consistent,
        OF this, of ls "''unknown''"] False
    show ?thesis by (simp add: ProcessProdigal_def)
  qed
qed

theorem written_length_witness:
  "length_consistent \<lparr>r_geneNo = PInt 1, r_strand = ''+'', r_leftEnd = PInt 337,
       r_rightEnd = PInt 2802, r_length = PInt 2466, r_contig = ''unknown''\<rparr>
   \<and> length_consistent \<lparr>r_geneNo = PInt 1, r_strand = ''+'', r_leftEnd = PInt 337,
       r_rightEnd = PInt 2799, r_length = PInt 2463, r_contig = ''c1''\<rparr>
   \<and> length_abs \<lparr>r_geneNo = PInt 1, r_strand = ''-'', r_leftEnd = PInt 337,
       r_rightEnd = PInt 2799, r_length = PInt 2463, r_contig = ''unknown''\<rparr>
   \<and> (\<exists>m k. re_search p_dataLine_Genemark
                ''     1        +          10         100          5        1'' = Some m
          \<and> py_int (group m 5) = Some k \<and> PInt 5 = PInt k)
   \<and> length_consistent \<lparr>r_geneNo = PStr ''1'', r_strand = ''+'', r_leftEnd = PInt 337,
       r_rightEnd = PInt 2799, r_length = PInt 2463, r_contig = ''unknown''\<rparr>"
proof (intro conjI)
  show "length_consistent \<lparr>r_geneNo = PInt 1, r_strand = ''+'', r_leftEnd = PInt 337,
       r_rightEnd = PInt 2802, r_length = PInt 2466, r_contig = ''unknown''\<rparr>"
    using written_length [of "source_config\<lparr>GLIMMER3 := False\<rparr>" False
        "[''    1      337     2799  [+1 L=2463 r=-1.345]'']"]
    by (simp add: Glimmer2_example)
next
  show "length_consistent \<lparr>r_geneNo = PInt 1, r_strand = ''+'', r_leftEnd = PInt 337,
       r_rightEnd = PInt 2799, r_length = PInt 2463, r_contig = ''c1''\<rparr>"
    using written_length [of source_config False
        "[''c1'' @ tab # ''FIG'' @ tab # ''CDS'' @ tab # ''337'' @ tab # ''2799'' @ tab # ''.''
             @ tab # ''+'' @ tab # ''0'' @ tab # ''ID=1'']"]
    unfolding RAST_example by simp
next
  show "length_abs \<lparr>r_geneNo = PInt 1, r_strand = ''-'', r_leftEnd = PInt 337,
       r_rightEnd = PInt 2799, r_length = PInt 2463, r_contig = ''unknown''\<rparr>"
    using written_length [of source_config False "[''2799'' @ tab # ''337'' @ tab # ''-'']"]
    unfolding Phate_example by simp
next
  show "\<exists>m k. re_search p_dataLine_Genemark
                ''     1        +          10         100          5        1'' = Some m
          \<and> py_int (group m 5) = Some k \<and> PInt 5 = PInt k"
    using written_length [of source_config False
        "[''     1        +          10         100          5        1'']"]
    by (simp add: Genemark_example)
next
  show "length_consistent \<lparr>r_geneNo = PStr ''1'', r_strand = ''+'', r_leftEnd = PInt 337,
       r_rightEnd = PInt 2799, r_length = PInt 2463, r_contig = ''unknown''\<rparr>"
  proof -
    have "PRODIGAL_sco source_config" by (simp add: source_config_def)
    with written_length [of source_config False
        "[''# Sequence Data: seqnum=1'', ''>1_337_2799_+'']"] Prodigal_example_lines
    have "\<forall>r\<in>set (OUT (ProcessProdigal source_config False
              [''# Sequence Data: seqnum=1'', ''>1_337_2799_+''])). length_consistent r"
      by blast
    then show ?thesis unfolding Prodigal_example by simp
  qed
qed

text \<open>
  C3. Claimed: the strand of every written record is \<^verbatim>\<open>+\<close> or \<^verbatim>\<open>-\<close>, never another
  value and never the empty string. \<open>ProcessProdigal\<close> breaks it: its write is outside the
  \<^verbatim>\<open>elif match_dataLine\<close> branch, so a line that is neither a comment nor a data line
  writes the locals as they stand. For an empty first line these are the initial ones, with
  the empty strand.
\<close>

theorem ProcessProdigal_empty_strand:
  "OUT (ProcessProdigal source_config False ['''', ''>1_337_2799_+''])
     = [\<lparr>r_geneNo = PInt 0, r_strand = [], r_leftEnd = PStr [], r_rightEnd = PStr [],
         r_length = PInt 0, r_contig = ''unknown''\<rparr>,
        \<lparr>r_geneNo = PStr ''1'', r_strand = ''+'', r_leftEnd = PInt 337, r_rightEnd = PInt 2799,
         r_length = PInt 2463, r_contig = ''unknown''\<rparr>]
   \<and> \<not> strand_ok \<lparr>r_geneNo = PInt 0, r_strand = [], r_leftEnd = PStr [], r_rightEnd = PStr [],
         r_length = PInt 0, r_contig = ''unknown''\<rparr>
   \<and> fmt_rec \<lparr>r_geneNo = PInt 0, r_strand = [], r_leftEnd = PStr [], r_rightEnd = PStr [],
         r_length = PInt 0, r_contig = ''unknown''\<rparr>
       = ''0'' @ [tab, tab, tab, tab] @ ''0'' @ [tab] @ ''unknown''"
  by (simp add: ProcessProdigal_def prodigal_sco_body_def source_config_def strand_ok_def
        fmt_rec_def show_int_def digit_char_def rx pats nums sts cong: backtrack_weak_cong)

text \<open>
  C4. Claimed: when a data line fails to parse (bad strand symbol, non-numeric coordinate,
  wrong field count), the normalizer logs the error, skips the line and goes on with the
  remaining lines. Such a line does not match the data-line pattern, and the code has no
  branch for it: nothing is logged. For a PHATE line whose strand is \<^verbatim>\<open>x\<close>, nothing is
  written and the log stays empty.
\<close>

theorem Phate_bad_strand_not_logged:
  "re_search p_dataLine_Phate (''5'' @ tab # ''9'' @ tab # ''x'') = None
   \<and> OUT (ProcessPhate False [''5'' @ tab # ''9'' @ tab # ''x'']) = []
   \<and> LOGFILE (ProcessPhate False [''5'' @ tab # ''9'' @ tab # ''x'']) = []"
  by (simp add: ProcessPhate_def phate_body_def rx pats nums sts cong: backtrack_weak_cong)

text \<open>
  C4, as the code has it. A line that matches neither the data-line pattern nor (for
  GeneMark and Glimmer) the contig-line pattern is skipped by \<open>ProcessGenemark\<close>,
  \<open>ProcessGlimmer\<close>, \<open>ProcessRAST\<close> and \<open>ProcessPhate\<close>: the call ends in the same state,
  output and log included, as on the input without that line, so the lines after it are
  processed as if it were absent. On every input, none of the five Process functions
  raises an exception or writes to the log.
\<close>

theorem unmatched_line_skipped:
  "(re_search p_contigLine_Genemark l = None \<and> re_search p_dataLine_Genemark l = None
      \<longrightarrow> ProcessGenemark uop (xs @ l # ys) = ProcessGenemark uop (xs @ ys))
   \<and> (re_search p_contigLine_Glimmer l = None \<and> re_search (p_dataLine_Glimmer cfg) l = None
      \<longrightarrow> ProcessGlimmer cfg uop (xs @ l # ys) = ProcessGlimmer cfg uop (xs @ ys))
   \<and> (re_search p_dataLine_RAST l = None
      \<longrightarrow> ProcessRAST cfg uop (xs @ l # ys) = ProcessRAST cfg uop (xs @ ys))
   \<and> (re_search p_dataLine_Phate l = None
      \<longrightarrow> ProcessPhate uop (xs @ l # ys) = ProcessPhate uop (xs @ ys))
   \<and> raised (ProcessGenemark uop ls) = None \<and> LOGFILE (ProcessGenemark uop ls) = []
   \<and> raised (ProcessGlimmer cfg uop ls) = None \<and> LOGFILE (ProcessGlimmer cfg uop ls) = []
   \<and> raised (ProcessRAST cfg uop ls) = None \<and> LOGFILE (ProcessRAST cfg uop ls) = []
   \<and> raised (ProcessProdigal cfg uop ls) = None \<and> LOGFILE (ProcessProdigal cfg uop ls) = []
   \<and> raised (ProcessPhate uop ls) = None \<and> LOGFILE (ProcessPhate uop ls) = []"
proof -
  have skip1: "re_search p_contigLine_Genemark l = None \<and> re_search p_dataLine_Genemark l = None
      \<longrightarrow> ProcessGenemark uop (xs @ l # ys) = ProcessGenemark uop (xs @ ys)"
    unfolding ProcessGenemark_def
    by (intro impI Process_unmatched genemark_body_unmatched) simp_all
  have skip2: "re_search p_contigLine_Glimmer l = None \<and> re_search (p_dataLine_Glimmer cfg) l = None
      \<longrightarrow> ProcessGlimmer cfg uop (xs @ l # ys) = ProcessGlimmer cfg uop (xs @ ys)"
    unfolding ProcessGlimmer_def
    by (intro impI Process_unmatched glimmer_body_unmatched) simp_all
  have skip3: "re_search p_dataLine_RAST l = None
      \<longrightarrow> ProcessRAST cfg uop (xs @ l # ys) = ProcessRAST cfg uop (xs @ ys)"
    unfolding ProcessRAST_def
    by (auto intro!: Process_unmatched rast_body_unmatched)
  have skip4: "re_search p_dataLine_Phate l = None
      \<longrightarrow> ProcessPhate uop (xs @ l # ys) = ProcessPhate uop (xs @ ys)"
    unfolding ProcessPhate_def
    by (intro impI Process_unmatched phate_body_unmatched) simp_all
  have q1: "raised (ProcessGenemark uop ls) = None \<and> LOGFILE (ProcessGenemark uop ls) = []"
    unfolding ProcessGenemark_def
    by (rule run_lines_quiet [where uop = uop]) (use genemark_body_effect [of _ uop] in blast)
  have q2: "raised (ProcessGlimmer cfg uop ls) = None \<and> LOGFILE (ProcessGlimmer cfg uop ls) = []"
    unfolding ProcessGlimmer_def
    by (rule run_lines_quiet [where uop = uop]) (use glimmer_body_effect [of _ cfg uop] in blast)
  have q3: "raised (ProcessRAST cfg uop ls) = None \<and> LOGFILE (ProcessRAST cfg uop ls) = []"
  proof (cases "RAST_GFF3 cfg")
    case True
    have "raised (run_lines (rast_body uop) ls (init_state [])) = None
          \<and> LOGFILE (run_lines (rast_body uop) ls (init_state [])) = []"
      by (rule run_lines_quiet [where uop = uop]) (use rast_body_effect [of _ uop] in blast)
    with True show ?thesis by (simp add: ProcessRAST_def)
  next
    case False
    then show ?thesis by (simp add: ProcessRAST_def init_state_def)
  qed
  have q4: "raised (ProcessProdigal cfg uop ls) = None \<and> LOGFILE (ProcessProdigal cfg uop ls) = []"
  proof (cases "PRODIGAL_sco cfg")
    case True
    have "raised (run_lines (prodigal_sco_body uop) ls (init_state ''unknown'')) = None
          \<and> LOGFILE (run_lines (prodigal_sco_body uop) ls (init_state ''unknown'')) = []"
      by (rule run_lines_quiet [where uop = uop]) (rule prodigal_sco_body_effect)
    with True show ?thesis by (simp add: ProcessProdigal_def)
  next
    case False
    have "raised (run_lines (prodigal_gff_body uop) ls (init_state ''unknown'')) = None
          \<and> LOGFILE (run_lines (prodigal_gff_body uop) ls (init_state ''unknown'')) = []"
      by (rule run_lines_quiet [where uop = uop]) (rule prodigal_gff_body_effect)
    with False show ?thesis by (simp add: ProcessProdigal_def)
  qed
  have q5: "raised (ProcessPhate uop ls) = None \<and> LOGFILE (ProcessPhate uop ls) = []"
    unfolding ProcessPhate_def
    by (rule run_lines_quiet [where uop = uop]) (use phate_body_effect [of _ uop] in blast)
  from skip1 skip2 skip3 skip4 q1 q2 q3 q4 q5 show ?thesis by blast
qed

theorem unmatched_line_skipped_witness:
  "ProcessGenemark False ([''1'' @ tab # ''2'' @ tab # ''+''] @ (''5'' @ tab # ''9'' @ tab # ''x'')
       # [''3'' @ tab # ''4'' @ tab # ''-''])
     = ProcessGenemark False ([''1'' @ tab # ''2'' @ tab # ''+''] @ [''3'' @ tab # ''4'' @ tab # ''-''])
   \<and> ProcessGlimmer source_config False ([''1'' @ tab # ''2'' @ tab # ''+'']
       @ (''5'' @ tab # ''9'' @ tab # ''x'') # [''3'' @ tab # ''4'' @ tab # ''-''])
     = ProcessGlimmer source_config False ([''1'' @ tab # ''2'' @ tab # ''+'']
       @ [''3'' @ tab # ''4'' @ tab # ''-''])
   \<and> ProcessRAST source_config False ([''1'' @ tab # ''2'' @ tab # ''+'']
       @ (''5'' @ tab # ''9'' @ tab # ''x'') # [''3'' @ tab # ''4'' @ tab # ''-''])
     = ProcessRAST source_config False ([''1'' @ tab # ''2'' @ tab # ''+'']
       @ [''3'' @ tab # ''4'' @ tab # ''-''])
   \<and> ProcessPhate False ([''1'' @ tab # ''2'' @ tab # ''+''] @ (''5'' @ tab # ''9'' @ tab # ''x'')
       # [''3'' @ tab # ''4'' @ tab # ''-''])
     = ProcessPhate False ([''1'' @ tab # ''2'' @ tab # ''+''] @ [''3'' @ tab # ''4'' @ tab # ''-''])
   \<and> raised (ProcessProdigal source_config False [''5'' @ tab # ''9'' @ tab # ''x'']) = None"
proof -
  have "re_search (p_dataLine_Glimmer source_config) (''5'' @ tab # ''9'' @ tab # ''x'') = None"
    using bad_strand_line(5) by (simp add: p_dataLine_Glimmer_def source_config_def)
  with bad_strand_line
    unmatched_line_skipped [of "''5'' @ tab # ''9'' @ tab # ''x''" False
      "[''1'' @ tab # ''2'' @ tab # ''+'']" "[''3'' @ tab # ''4'' @ tab # ''-'']" source_config
      "[''5'' @ tab # ''9'' @ tab # ''x'']"]
  show ?thesis by blast
qed

text \<open>
  C5. Claimed: every written record comes from exactly one input line that matched the
  data-line pattern, and a line that is not a comment and does not match writes nothing.
  \<open>ProcessProdigal\<close> breaks it, by the same misplaced write: the second line below matches
  neither pattern, and the record of the first line is written a second time for it.
\<close>

theorem ProcessProdigal_unmatched_line_writes:
  "re_search p_comment ''Sequence end'' = None
   \<and> re_search p_dataLine_Prodigal_sco ''Sequence end'' = None
   \<and> OUT (ProcessProdigal source_config False [''>1_337_2799_+'', ''Sequence end''])
     = [\<lparr>r_geneNo = PStr ''1'', r_strand = ''+'', r_leftEnd = PInt 337, r_rightEnd = PInt 2799,
         r_length = PInt 2463, r_contig = ''unknown''\<rparr>,
        \<lparr>r_geneNo = PStr ''1'', r_strand = ''+'', r_leftEnd = PInt 337, r_rightEnd = PInt 2799,
         r_length = PInt 2463, r_contig = ''unknown''\<rparr>]"
  by (simp add: ProcessProdigal_def prodigal_sco_body_def source_config_def
        rx pats nums sts cong: backtrack_weak_cong)

text \<open>
  C6. Claimed: no exception escapes; an unreadable input file or an unwritable output
  path, the user's output path included, is turned into a logged message and a fallback.
  The parser catches the IOError of the user's output path and sets \<^verbatim>\<open>fileError\<close>, as
  it does for its two other files, but never tests the flag again: the run goes on with
  \<^verbatim>\<open>USER_OUT\<close> unassigned and ends in a NameError at the first \<^verbatim>\<open>USER_OUT.write\<close>, with
  nothing in the log. The driver opens each input file outside any \<^verbatim>\<open>try\<close>: a file
  that does not open ends the run with an IOError.
\<close>

theorem uncaught_exceptions:
  "parser_main source_config
     \<lparr>can_read = (\<lambda>p. p = ''genes.sco''), can_write = (\<lambda>p. p = ''./CGC_parser.out''),
      errmsg = (\<lambda>p. ''cannot open '' @ p), file_lines = (\<lambda>p. [''>1_337_2799_+''])\<rparr>
     [''CGC_parser.py'', ''prodigal'', ''genes.sco'', ''/no/such/dir/genes.cgc'']
   = \<lparr>p_stdout = [Line ''cannot open /no/such/dir/genes.cgc''], p_log = [],
      p_outfile = header ''prodigal'' ''genes.sco'', p_userfile = [],
      p_status = Uncaught NameError\<rparr>
   \<and> d_status (main
        \<lparr>can_read = (\<lambda>p. p = ''a.calls''), can_write = (\<lambda>p. False),
         errmsg = (\<lambda>p. ''cannot open '' @ p), file_lines = (\<lambda>p. [])\<rparr>
        [''CGC_main.py'', ''a.calls'', ''missing.calls'']) = Uncaught IOError"
  by (simp add: parser_main_def parser_args_def outfile_def drv rx cong: backtrack_weak_cong)











end
